theory Spec2Isabelle
  imports Complex_Main
begin

section \<open>Swing trade basket generator: data model\<close>

text \<open>
  The Python sources under \<^verbatim>\<open>backend/app\<close> compute with \<^verbatim>\<open>float\<close> and \<^verbatim>\<open>int\<close>.
  Python's unbounded \<^verbatim>\<open>int\<close> is \<^typ>\<open>int\<close>. A \<^verbatim>\<open>float\<close> is modelled by the
  real number it denotes: every arithmetic operation is exact, and the rounding of IEEE
  doubles, infinities and NaN are outside the model. Exceptions are values of
  \<open>py_error\<close>; a function that can raise returns \<open>py_error + 'a\<close>.
\<close>

datatype py_error = ZeroDivisionError | ValueError string

text \<open>\<^verbatim>\<open>int(x)\<close> on a float truncates towards zero.\<close>

definition py_int :: "real \<Rightarrow> int" where
  "py_int x = (if 0 \<le> x then \<lfloor>x\<rfloor> else \<lceil>x\<rceil>)"

text \<open>
  \<^verbatim>\<open>models.TradeInput\<close>. The pydantic validators reject a trade unless the ticker is
  non-empty, the three prices are positive, the stop is below the entry and the target
  above it; the record holds the fields of a trade after validation.
\<close>

record trade_input =
  ticker :: string
  entry_price :: real
  stop_loss :: real
  target :: real


text \<open>
  The diagnostic lines of the services are f-strings; the model keeps which line is
  emitted and the values it prints, not the rendered text.
\<close>

datatype message =
    CouldNotFetch string
  | InsufficientLiquidity real real
  | LiquidityOK real
  | StopLossTooHigh real real
  | StopLossOK real
  | LowRiskReward real real
  | RiskRewardOK real
  | MaximumQuantity int real
  | TradeApproved string
  | TradeRejected string

text \<open>\<^verbatim>\<open>models.TechnicalValidation\<close>\<close>

record technical_validation =
  valid :: bool
  daily_liquidity :: real
  stop_loss_percent :: real
  risk_reward_ratio :: real
  max_quantity :: int
  messages :: "message list"

text \<open>
  \<^verbatim>\<open>models.ClientOrder\<close>: the sixteen brokerage fields and the two internal ones. The
  fields whose names \<^verbatim>\<open>Client\<close> and \<^verbatim>\<open>TradeInput\<close> also use carry the prefix
  \<open>order_\<close>.
\<close>

record client_order =
  order_account_number :: string
  push_validity :: string
  order_validity :: string
  order_ticker :: string
  order_strategy :: string
  direction :: string
  quantity :: int
  apparent_quantity :: string
  minimum_quantity :: string
  price_type :: string
  limit_price :: real
  trigger_type :: string
  upper_trigger_price :: string
  upper_limit_price :: string
  lower_trigger_price :: string
  lower_limit_price :: string
  order_client_name :: "string option"
  invested_amount :: "real option"

text \<open>
  The constructor call \<^verbatim>\<open>ClientOrder(account_number=..., ticker=..., quantity=...,
  price_type=..., limit_price=..., client_name=..., invested_amount=...)\<close> of
  \<^verbatim>\<open>generate_basket\<close>, every other field at its declared default.
\<close>

definition ClientOrder ::
  "string \<Rightarrow> string \<Rightarrow> int \<Rightarrow> string \<Rightarrow> real \<Rightarrow> string option \<Rightarrow> real option \<Rightarrow> client_order"
where
  "ClientOrder acct tk q pt lp cn amt =
     \<lparr> order_account_number = acct, push_validity = ''hoje'', order_validity = ''hoje'',
       order_ticker = tk, order_strategy = ''position'', direction = ''compra'',
       quantity = q, apparent_quantity = '''', minimum_quantity = '''',
       price_type = pt, limit_price = lp, trigger_type = '''',
       upper_trigger_price = '''', upper_limit_price = '''',
       lower_trigger_price = '''', lower_limit_price = '''',
       order_client_name = cn, invested_amount = amt \<rparr>"

section \<open>\<^verbatim>\<open>services/basket_calculator.py\<close>\<close>









text \<open>
  \<^verbatim>\<open>calculate_summary\<close>. The comprehension keeps the amounts that are truthy: neither
  \<^verbatim>\<open>None\<close> nor zero. \<^verbatim>\<open>sum(amounts) / len(amounts)\<close> raises on an empty list, before
  \<^verbatim>\<open>min\<close> is reached.
\<close>

record summary =
  total_orders :: nat
  total_shares :: int
  total_invested :: real
  average_investment :: real
  min_investment :: real
  max_investment :: real

fun truthy_amounts :: "client_order list \<Rightarrow> real list" where
  "truthy_amounts [] = []"
| "truthy_amounts (x # xs) =
     (case invested_amount x of
        None \<Rightarrow> truthy_amounts xs
      | Some a \<Rightarrow> if a = 0 then truthy_amounts xs else a # truthy_amounts xs)"

definition calculate_summary :: "client_order list \<Rightarrow> py_error + summary" where
  "calculate_summary orders =
     (if orders = [] then
        Inr \<lparr> total_orders = 0, total_shares = 0, total_invested = 0,
              average_investment = 0, min_investment = 0, max_investment = 0 \<rparr>
      else
        (let amounts = truthy_amounts orders in
         case amounts of
           [] \<Rightarrow> Inl ZeroDivisionError
         | a # as \<Rightarrow>
             Inr \<lparr> total_orders = length orders,
                   total_shares = sum_list (map quantity orders),
                   total_invested = sum_list amounts,
                   average_investment = sum_list amounts / real (length amounts),
                   min_investment = fold min as a,
                   max_investment = fold max as a \<rparr>))"


text \<open>
  In the words of the specification: the invested amounts that are present, that is,
  not \<^verbatim>\<open>None\<close>. A present amount of zero is in this list and not in
  \<open>truthy_amounts\<close>.
\<close>

definition present_amounts :: "client_order list \<Rightarrow> real list" where
  "present_amounts orders =
     concat (map (\<lambda>x. case invested_amount x of None \<Rightarrow> [] | Some a \<Rightarrow> [a]) orders)"

section \<open>\<^verbatim>\<open>services/market_data.py\<close>\<close>

text \<open>
  The quote provider (\<^verbatim>\<open>yfinance\<close>) is a parameter of the model. For a provider symbol
  it answers \<^verbatim>\<open>yf.Ticker(sym).history(period="1mo")\<close> with the rows of the price history
  (oldest first) and \<^verbatim>\<open>yf.Ticker(sym).info\<close> with a dictionary, or either call raises.
\<close>

datatype 'a outcome = Raised | Returned 'a

record bar =
  bar_open :: real
  bar_high :: real
  bar_low :: real
  bar_close :: real
  bar_volume :: real

record provider =
  history :: "string \<Rightarrow> bar list outcome"
  info :: "string \<Rightarrow> (string \<rightharpoonup> string) outcome"

text \<open>The dictionary \<^verbatim>\<open>data\<close> built by \<^verbatim>\<open>get_ticker_data\<close>, one field per key.\<close>

record market_data =
  md_ticker :: string
  md_ticker_b3 :: string
  current_price :: real
  average_daily_volume :: real
  md_daily_liquidity :: real
  open_price :: real
  high_price :: real
  low_price :: real
  change_percent :: real
  company_name :: string
  sector :: string

text \<open>
  \<^verbatim>\<open>self.cache\<close>: a dictionary from the provider symbol to the pair
  \<^verbatim>\<open>(data, timestamp)\<close>; the code stores \<^verbatim>\<open>None\<close> as the timestamp and never reads it.
\<close>

type_synonym cache = "string \<rightharpoonup> (market_data \<times> real option)"

text \<open>
  \<^verbatim>\<open>str.upper()\<close> and the operator \<^verbatim>\<open>in\<close> on strings. Tickers are modelled as ASCII
  strings: \<open>upper\<close> maps the letters a to z and leaves every other character.
\<close>

definition upper_char :: "char \<Rightarrow> char" where
  "upper_char c =
     (case map_of (zip ''abcdefghijklmnopqrstuvwxyz'' ''ABCDEFGHIJKLMNOPQRSTUVWXYZ'') c of
        None \<Rightarrow> c
      | Some u \<Rightarrow> u)"

definition upper :: "string \<Rightarrow> string" where
  "upper s = map upper_char s"

fun starts_with :: "string \<Rightarrow> string \<Rightarrow> bool" where
  "starts_with [] s = True"
| "starts_with (p # ps) [] = False"
| "starts_with (p # ps) (c # cs) = (p = c \<and> starts_with ps cs)"

fun str_contains :: "string \<Rightarrow> string \<Rightarrow> bool" where
  "str_contains p [] = starts_with p []"
| "str_contains p (c # cs) = (starts_with p (c # cs) \<or> str_contains p cs)"

text \<open>
  The provider symbol: \<^verbatim>\<open>ticker if '.SA' in ticker.upper() else f"{ticker}.SA"\<close>.
\<close>

definition ticker_b3 :: "string \<Rightarrow> string" where
  "ticker_b3 tk = (if str_contains ''.SA'' (upper tk) then tk else tk @ ''.SA'')"


text \<open>\<^verbatim>\<open>Series.tail(n)\<close> and \<^verbatim>\<open>Series.mean()\<close> of pandas, on a non-empty series.\<close>

definition tail :: "nat \<Rightarrow> 'a list \<Rightarrow> 'a list" where
  "tail n xs = drop (length xs - n) xs"

definition mean :: "real list \<Rightarrow> real" where
  "mean xs = sum_list xs / real (length xs)"

text \<open>
  \<^verbatim>\<open>get_ticker_data\<close> returns the snapshot or \<^verbatim>\<open>None\<close>, and the cache as it leaves
  it. The \<^verbatim>\<open>try\<close> block turns every exception into \<^verbatim>\<open>None\<close>; the cache is written
  only on the last step. The day change divides by the previous close with numpy
  floats, where a zero divisor gives an infinity and no exception; that value is
  outside the real-number model, and no statement below reads \<open>change_percent\<close>.
\<close>

definition get_ticker_data :: "provider \<Rightarrow> cache \<Rightarrow> string \<Rightarrow> market_data option \<times> cache" where
  "get_ticker_data yf cache tk =
     (let sym = ticker_b3 tk in
      case cache sym of
        Some (cached_data, timestamp) \<Rightarrow> (Some cached_data, cache)
      | None \<Rightarrow>
         (case history yf sym of
            Raised \<Rightarrow> (None, cache)
          | Returned hist \<Rightarrow>
              if hist = [] then (None, cache)
              else
                (case info yf sym of
                   Raised \<Rightarrow> (None, cache)
                 | Returned meta \<Rightarrow>
                    (let avg_volume = mean (tail 20 (map bar_volume hist));
                         avg_price = mean (tail 20 (map bar_close hist));
                         liquidity = avg_volume * avg_price;
                         price = bar_close (last hist);
                         data = \<lparr> md_ticker = tk, md_ticker_b3 = sym,
                                  current_price = price,
                                  average_daily_volume = avg_volume,
                                  md_daily_liquidity = liquidity,
                                  open_price = bar_open (last hist),
                                  high_price = bar_high (last hist),
                                  low_price = bar_low (last hist),
                                  change_percent =
                                    (if length hist > 1
                                     then (price / bar_close (hist ! (length hist - 2)) - 1) * 100
                                     else 0),
                                  company_name = (case meta ''longName'' of None \<Rightarrow> tk | Some v \<Rightarrow> v),
                                  sector = (case meta ''sector'' of None \<Rightarrow> ''N/A'' | Some v \<Rightarrow> v) \<rparr>
                     in (Some data, cache(sym \<mapsto> (data, None)))))))"

definition clear_cache :: "cache \<Rightarrow> cache" where
  "clear_cache cache = Map.empty"

section \<open>\<^verbatim>\<open>services/trade_validador.py\<close>\<close>

definition MIN_LIQUIDITY :: real where
  "MIN_LIQUIDITY = 30000000"

definition MAX_STOP_LOSS :: real where
  "MAX_STOP_LOSS = 0.08"

definition MIN_RISK_REWARD :: real where
  "MIN_RISK_REWARD = 1.33"

definition MAX_VOLUME_PERCENT :: real where
  "MAX_VOLUME_PERCENT = 0.01"

text \<open>
  The body of \<^verbatim>\<open>validate_trade\<close> after the snapshot has been fetched. The flag
  \<^verbatim>\<open>valid\<close> and the list \<^verbatim>\<open>messages\<close> are threaded through the four rules as the
  code assigns them; the division of rule 2 raises when the entry price is zero.
\<close>

definition apply_rules :: "market_data \<Rightarrow> trade_input \<Rightarrow> py_error + technical_validation" where
  "apply_rules md trade =
     (let liquidity = md_daily_liquidity md;
          avg_volume = average_daily_volume md;
          (valid1, msgs1) =
             (if liquidity < MIN_LIQUIDITY
              then (False, [InsufficientLiquidity liquidity MIN_LIQUIDITY])
              else (True, [LiquidityOK liquidity]))
      in if entry_price trade = 0 then Inl ZeroDivisionError
         else
          (let slp = \<bar>(stop_loss trade - entry_price trade) / entry_price trade\<bar>;
               (valid2, msgs2) =
                  (if slp > MAX_STOP_LOSS
                   then (False, msgs1 @ [StopLossTooHigh slp MAX_STOP_LOSS])
                   else (valid1, msgs1 @ [StopLossOK slp]));
               risk = \<bar>entry_price trade - stop_loss trade\<bar>;
               reward = \<bar>target trade - entry_price trade\<bar>;
               ratio = (if risk > 0 then reward / risk else 0);
               (valid3, msgs3) =
                  (if ratio < MIN_RISK_REWARD
                   then (False, msgs2 @ [LowRiskReward ratio MIN_RISK_REWARD])
                   else (valid2, msgs2 @ [RiskRewardOK ratio]));
               max_qty = py_int (avg_volume * MAX_VOLUME_PERCENT);
               msgs4 = msgs3 @ [MaximumQuantity max_qty MAX_VOLUME_PERCENT];
               msgs5 = (if valid3 then TradeApproved (ticker trade) # msgs4
                        else TradeRejected (ticker trade) # msgs4)
           in Inr \<lparr> valid = valid3, daily_liquidity = liquidity, stop_loss_percent = slp,
                    risk_reward_ratio = ratio, max_quantity = max_qty, messages = msgs5 \<rparr>))"

text \<open>
  \<^verbatim>\<open>validate_trade\<close>: the fetch through the market data service, the early return when
  no snapshot came back, then the four rules.
\<close>

definition validate_trade ::
  "provider \<Rightarrow> cache \<Rightarrow> trade_input \<Rightarrow> (py_error + technical_validation) \<times> cache"
where
  "validate_trade yf cache trade =
     (case get_ticker_data yf cache (ticker trade) of
        (None, cache') \<Rightarrow>
          (Inr \<lparr> valid = False, daily_liquidity = 0, stop_loss_percent = 0,
                 risk_reward_ratio = 0, max_quantity = 0,
                 messages = [CouldNotFetch (ticker trade)] \<rparr>, cache')
      | (Some md, cache') \<Rightarrow> (apply_rules md trade, cache'))"

section \<open>\<^verbatim>\<open>services/excel_generator.py\<close>\<close>

text \<open>
  A pandas data frame is its list of column names and its rows of cells; \<open>CNaN\<close> is
  the missing-value marker. The file system is a map from a path, the pair of directory
  and file name, to the frame written there; failures of the write itself (a missing
  directory, permissions) are not modelled.
\<close>

datatype cell = CStr string | CInt int | CFloat real | CNaN

record data_frame =
  columns :: "string list"
  rows :: "cell list list"

type_synonym file_system = "(string \<times> string) \<rightharpoonup> data_frame"

definition COLUMNS :: "string list" where
  "COLUMNS =
     [''NUMERO_CONTA'', ''VALIDADE_PUSH'', ''VALIDADE_ORDEM'', ''ATIVO'', ''ESTRATEGIA'',
      ''DIRECAO'', ''QUANTIDADE'', ''QUANTIDADE_APARENTE'', ''QUANTIDADE_MINIMA'',
      ''TIPO_PRECO'', ''PRECO_LIMITE'', ''TIPO_DISPARO'', ''PRECO_DISPARO_CIMA'',
      ''PRECO_LIMITE_CIMA'', ''PRECO_DISPARO_BAIXO'', ''PRECO_LIMITE_BAIXO'']"

definition order_to_dict :: "client_order \<Rightarrow> (string \<times> cell) list" where
  "order_to_dict x =
     [(''NUMERO_CONTA'', CStr (order_account_number x)),
      (''VALIDADE_PUSH'', CStr (push_validity x)),
      (''VALIDADE_ORDEM'', CStr (order_validity x)),
      (''ATIVO'', CStr (order_ticker x)),
      (''ESTRATEGIA'', CStr (order_strategy x)),
      (''DIRECAO'', CStr (direction x)),
      (''QUANTIDADE'', CInt (quantity x)),
      (''QUANTIDADE_APARENTE'', CStr (apparent_quantity x)),
      (''QUANTIDADE_MINIMA'', CStr (minimum_quantity x)),
      (''TIPO_PRECO'', CStr (price_type x)),
      (''PRECO_LIMITE'', CFloat (limit_price x)),
      (''TIPO_DISPARO'', CStr (trigger_type x)),
      (''PRECO_DISPARO_CIMA'', CStr (upper_trigger_price x)),
      (''PRECO_LIMITE_CIMA'', CStr (upper_limit_price x)),
      (''PRECO_DISPARO_BAIXO'', CStr (lower_trigger_price x)),
      (''PRECO_LIMITE_BAIXO'', CStr (lower_limit_price x))]"

text \<open>
  \<^verbatim>\<open>pd.DataFrame(data, columns=cols)\<close> on a list of dictionaries: one row per
  dictionary, the cells in the order of \<open>cols\<close>, a key that is missing read as NaN.
\<close>

definition DataFrame :: "(string \<times> cell) list list \<Rightarrow> string list \<Rightarrow> data_frame" where
  "DataFrame data cols =
     \<lparr> columns = cols,
       rows = map (\<lambda>d. map (\<lambda>k. case map_of d k of None \<Rightarrow> CNaN | Some v \<Rightarrow> v) cols) data \<rparr>"

text \<open>
  \<^verbatim>\<open>df[col] = df[col].fillna('')\<close>. The code applies it to seven names of \<open>COLUMNS\<close>,
  so the \<^verbatim>\<open>KeyError\<close> of an unknown column cannot arise.
\<close>

definition fillna :: "string \<Rightarrow> data_frame \<Rightarrow> data_frame" where
  "fillna col df =
     df \<lparr> rows := map (\<lambda>r. map (\<lambda>(k, v). if k = col \<and> v = CNaN then CStr '''' else v)
                               (zip (columns df) r)) (rows df) \<rparr>"

definition empty_columns :: "string list" where
  "empty_columns =
     [''QUANTIDADE_APARENTE'', ''QUANTIDADE_MINIMA'', ''TIPO_DISPARO'',
      ''PRECO_DISPARO_CIMA'', ''PRECO_LIMITE_CIMA'',
      ''PRECO_DISPARO_BAIXO'', ''PRECO_LIMITE_BAIXO'']"

text \<open>
  \<^verbatim>\<open>datetime.now().strftime("%Y%m%d_%H%M%S")\<close>: the clock reading is a parameter. Each
  field is printed in decimal, padded with zeros to its width.
\<close>

record datetime =
  year :: nat
  month :: nat
  day :: nat
  hour :: nat
  minute :: nat
  second :: nat

definition digit :: "nat \<Rightarrow> char" where
  "digit n = ''0123456789'' ! (n mod 10)"

fun zero_padded :: "nat \<Rightarrow> nat \<Rightarrow> string" where
  "zero_padded 0 n = []"
| "zero_padded (Suc w) n = zero_padded w (n div 10) @ [digit n]"

text \<open>
  The values of a Python \<^verbatim>\<open>datetime\<close> on which \<^verbatim>\<open>%Y\<close> prints four digits.
\<close>

definition valid_datetime :: "datetime \<Rightarrow> bool" where
  "valid_datetime t \<longleftrightarrow>
     1000 \<le> year t \<and> year t \<le> 9999 \<and> 1 \<le> month t \<and> month t \<le> 12
     \<and> 1 \<le> day t \<and> day t \<le> 31 \<and> hour t < 24 \<and> minute t < 60 \<and> second t < 60"

definition strftime :: "datetime \<Rightarrow> string" where
  "strftime t =
     zero_padded 4 (year t) @ zero_padded 2 (month t) @ zero_padded 2 (day t) @ ''_''
     @ zero_padded 2 (hour t) @ zero_padded 2 (minute t) @ zero_padded 2 (second t)"

text \<open>
  In the words of the specification: the timestamp \<^verbatim>\<open>YYYYMMDDHHMMSS\<close>, the six fields
  in a row.
\<close>

definition spec_timestamp :: "datetime \<Rightarrow> string" where
  "spec_timestamp t =
     zero_padded 4 (year t) @ zero_padded 2 (month t) @ zero_padded 2 (day t)
     @ zero_padded 2 (hour t) @ zero_padded 2 (minute t) @ zero_padded 2 (second t)"

definition generate_excel ::
  "string \<Rightarrow> datetime \<Rightarrow> file_system \<Rightarrow> client_order list \<Rightarrow> string
     \<Rightarrow> py_error + ((string \<times> string) \<times> file_system)"
where
  "generate_excel output_dir now fs orders tk =
     (if orders = [] then Inl (ValueError ''Cannot generate Excel: no orders provided'')
      else
        (let data = map order_to_dict orders;
             df = DataFrame data COLUMNS;
             df = fold fillna empty_columns df;
             timestamp = strftime now;
             filename = ''basket_'' @ tk @ ''_'' @ timestamp @ ''.xlsx'';
             filepath = (output_dir, filename)
         in Inr (filepath, fs(filepath \<mapsto> df))))"

section \<open>Properties of the basket calculator\<close>



















lemma truthy_amounts_eq: "truthy_amounts orders = filter (\<lambda>a. a \<noteq> 0) (present_amounts orders)"
  by (induction orders) (simp_all add: present_amounts_def split: option.splits)

lemma sum_list_filter_nonzero: "sum_list (filter (\<lambda>a. a \<noteq> 0) xs) = sum_list (xs :: real list)"
  by (induction xs) simp_all

lemma fold_min_Min: "fold min as (a::real) = Min (set (a # as))"
  by (rule Min.set_eq_fold [symmetric])

lemma fold_max_Max: "fold max as (a::real) = Max (set (a # as))"
  by (rule Max.set_eq_fold [symmetric])

text \<open>
  Claim C6, as amended. \<^verbatim>\<open>calculate_summary\<close> returns all aggregates zero for the empty
  list. For every non-empty list in which some order has an invested amount that is
  present and not zero, it returns total orders = the number of orders, total shares =
  the sum of the quantities, total invested = the sum of the invested amounts that are
  present, and the average, minimum and maximum investment over the invested amounts
  that are present and not zero.
\<close>

theorem calculate_summary_aggregates:
  "calculate_summary [] =
     Inr \<lparr> total_orders = 0, total_shares = 0, total_invested = 0,
           average_investment = 0, min_investment = 0, max_investment = 0 \<rparr>
   \<and> (orders \<noteq> [] \<longrightarrow> truthy_amounts orders \<noteq> [] \<longrightarrow>
        truthy_amounts orders = filter (\<lambda>a. a \<noteq> 0) (present_amounts orders)
        \<and> calculate_summary orders =
          Inr \<lparr> total_orders = length orders,
                total_shares = sum_list (map quantity orders),
                total_invested = sum_list (present_amounts orders),
                average_investment =
                  sum_list (truthy_amounts orders) / real (length (truthy_amounts orders)),
                min_investment = Min (set (truthy_amounts orders)),
                max_investment = Max (set (truthy_amounts orders)) \<rparr>)"
proof (intro conjI impI)
  show "calculate_summary [] =
     Inr \<lparr> total_orders = 0, total_shares = 0, total_invested = 0,
           average_investment = 0, min_investment = 0, max_investment = 0 \<rparr>"
    by (simp add: calculate_summary_def)
next
  show "truthy_amounts orders = filter (\<lambda>a. a \<noteq> 0) (present_amounts orders)"
    by (rule truthy_amounts_eq)
next
  assume ne: "orders \<noteq> []" and tr: "truthy_amounts orders \<noteq> []"
  then obtain a as where eq: "truthy_amounts orders = a # as"
    by (cases "truthy_amounts orders") auto
  have s: "sum_list (present_amounts orders) = sum_list (truthy_amounts orders)"
    by (simp add: truthy_amounts_eq sum_list_filter_nonzero)
  show "calculate_summary orders =
          Inr \<lparr> total_orders = length orders,
                total_shares = sum_list (map quantity orders),
                total_invested = sum_list (present_amounts orders),
                average_investment =
                  sum_list (truthy_amounts orders) / real (length (truthy_amounts orders)),
                min_investment = Min (set (truthy_amounts orders)),
                max_investment = Max (set (truthy_amounts orders)) \<rparr>"
    unfolding s using ne
    by (simp add: calculate_summary_def eq Let_def fold_min_Min fold_max_Max del: set_simps)
qed

text \<open>
  The theorem at three orders, the third without an invested amount.
\<close>

theorem calculate_summary_aggregates_witness:
  "[ClientOrder ''1001'' ''PETR4'' 500 ''l'' 20 (Some ''Ana'') (Some 10000), ClientOrder ''1002'' ''PETR4'' 2500 ''l'' 20 (Some ''Bruno'') (Some 50000), ClientOrder ''1003'' ''PETR4'' 7 ''l'' 20 None None] \<noteq> []
   \<and> truthy_amounts [ClientOrder ''1001'' ''PETR4'' 500 ''l'' 20 (Some ''Ana'') (Some 10000), ClientOrder ''1002'' ''PETR4'' 2500 ''l'' 20 (Some ''Bruno'') (Some 50000), ClientOrder ''1003'' ''PETR4'' 7 ''l'' 20 None None] \<noteq> []
   \<and> calculate_summary [ClientOrder ''1001'' ''PETR4'' 500 ''l'' 20 (Some ''Ana'') (Some 10000), ClientOrder ''1002'' ''PETR4'' 2500 ''l'' 20 (Some ''Bruno'') (Some 50000), ClientOrder ''1003'' ''PETR4'' 7 ''l'' 20 None None]
       = Inr \<lparr> total_orders = 3, total_shares = 3007, total_invested = 60000,
               average_investment = 30000, min_investment = 10000, max_investment = 50000 \<rparr>"
  using calculate_summary_aggregates [of "[ClientOrder ''1001'' ''PETR4'' 500 ''l'' 20 (Some ''Ana'') (Some 10000), ClientOrder ''1002'' ''PETR4'' 2500 ''l'' 20 (Some ''Bruno'') (Some 50000), ClientOrder ''1003'' ''PETR4'' 7 ''l'' 20 None None]"]
  by (simp add: present_amounts_def ClientOrder_def)

text \<open>
  Claim C6 as stated fails on an order whose invested amount is present and zero: the
  code leaves it out of the average, the minimum and the maximum. Over the amounts that
  are present, \<open>[0, 10]\<close>, the average is 5 and the minimum 0; the code returns 10 for
  both.
\<close>

theorem calculate_summary_zero_amount:
  "calculate_summary [ClientOrder ''1001'' ''PETR4'' 1 ''l'' 20 (Some ''Ana'') (Some 0), ClientOrder ''1002'' ''PETR4'' 2 ''l'' 20 (Some ''Bruno'') (Some 10)]
     = Inr \<lparr> total_orders = 2, total_shares = 3, total_invested = 10,
             average_investment = 10, min_investment = 10, max_investment = 10 \<rparr>
   \<and> present_amounts [ClientOrder ''1001'' ''PETR4'' 1 ''l'' 20 (Some ''Ana'') (Some 0), ClientOrder ''1002'' ''PETR4'' 2 ''l'' 20 (Some ''Bruno'') (Some 10)] = [0, 10]
   \<and> sum_list [0, 10 :: real] / real (length [0, 10 :: real]) = 5
   \<and> Min (set [0, 10 :: real]) = 0"
  by (simp add: calculate_summary_def present_amounts_def ClientOrder_def)

text \<open>
  A non-empty list none of whose orders has an invested amount that is present and not
  zero makes \<^verbatim>\<open>sum(amounts) / len(amounts)\<close> raise.
\<close>

lemma calculate_summary_raises:
  "calculate_summary [ClientOrder ''1003'' ''PETR4'' 7 ''l'' 20 None None] = Inl ZeroDivisionError"
  by (simp add: calculate_summary_def ClientOrder_def)

section \<open>Properties of the market data service and the trade validator\<close>












text \<open>
  Claim C5. For every trade for which the market data service returns no snapshot,
  \<^verbatim>\<open>validate_trade\<close> returns the result with \<open>valid\<close> false, the four numeric fields
  zero and the single message that the data could not be fetched; the prices of the
  trade do not enter it.
\<close>

theorem validate_trade_no_market_data:
  assumes "fst (get_ticker_data yf cache (ticker trade)) = None"
  shows "fst (validate_trade yf cache trade) =
           Inr \<lparr> valid = False, daily_liquidity = 0, stop_loss_percent = 0,
                 risk_reward_ratio = 0, max_quantity = 0,
                 messages = [CouldNotFetch (ticker trade)] \<rparr>"
proof -
  obtain cache' where "get_ticker_data yf cache (ticker trade) = (None, cache')"
    using assms by (cases "get_ticker_data yf cache (ticker trade)") simp
  then show ?thesis by (simp add: validate_trade_def)
qed

text \<open>
  The theorem at a provider that returns an empty history, on the empty cache.
\<close>

theorem validate_trade_no_market_data_witness:
  "fst (get_ticker_data \<lparr> history = (\<lambda>s. Returned []), info = (\<lambda>s. Raised) \<rparr> Map.empty (ticker \<lparr> ticker = ''PETR4'', entry_price = 20, stop_loss = 19, target = 21.5 \<rparr>)) = None
   \<and> fst (validate_trade \<lparr> history = (\<lambda>s. Returned []), info = (\<lambda>s. Raised) \<rparr> Map.empty \<lparr> ticker = ''PETR4'', entry_price = 20, stop_loss = 19, target = 21.5 \<rparr>) =
           Inr \<lparr> valid = False, daily_liquidity = 0, stop_loss_percent = 0,
                 risk_reward_ratio = 0, max_quantity = 0,
                 messages = [CouldNotFetch ''PETR4''] \<rparr>"
proof -
  have g: "fst (get_ticker_data \<lparr> history = (\<lambda>s. Returned []), info = (\<lambda>s. Raised) \<rparr> Map.empty (ticker \<lparr> ticker = ''PETR4'', entry_price = 20, stop_loss = 19, target = 21.5 \<rparr>)) = None"
    by (simp add: get_ticker_data_def)
  show ?thesis
    using g validate_trade_no_market_data [OF g] by simp
qed

section \<open>Properties of the spreadsheet generator\<close>

lemma DataFrame_rows:
  "DataFrame (map order_to_dict orders) COLUMNS =
     \<lparr> columns = COLUMNS, rows = map (\<lambda>x. map snd (order_to_dict x)) orders \<rparr>"
  by (simp add: DataFrame_def COLUMNS_def order_to_dict_def)

lemma fillna_rows:
  "fillna col \<lparr> columns = COLUMNS, rows = map (\<lambda>x. map snd (order_to_dict x)) orders \<rparr> =
     \<lparr> columns = COLUMNS, rows = map (\<lambda>x. map snd (order_to_dict x)) orders \<rparr>"
  by (simp add: fillna_def COLUMNS_def order_to_dict_def)

lemma fold_fillna_rows:
  "fold fillna cols \<lparr> columns = COLUMNS, rows = map (\<lambda>x. map snd (order_to_dict x)) orders \<rparr> =
     \<lparr> columns = COLUMNS, rows = map (\<lambda>x. map snd (order_to_dict x)) orders \<rparr>"
  by (induction cols) (simp_all add: fillna_rows)

lemma generate_excel_nonempty:
  assumes "orders \<noteq> []"
  shows "generate_excel output_dir now fs orders tk =
           Inr ((output_dir, ''basket_'' @ tk @ ''_'' @ strftime now @ ''.xlsx''),
                fs((output_dir, ''basket_'' @ tk @ ''_'' @ strftime now @ ''.xlsx'') \<mapsto>
                   \<lparr> columns = COLUMNS, rows = map (\<lambda>x. map snd (order_to_dict x)) orders \<rparr>))"
  using assms by (simp add: generate_excel_def Let_def DataFrame_rows fold_fillna_rows)

text \<open>
  Claim C7. \<^verbatim>\<open>generate_excel\<close> raises \<^verbatim>\<open>ValueError\<close> on the empty order list and writes
  nothing. On every non-empty list it writes one frame whose columns are the sixteen
  brokerage columns in their fixed order and whose rows, one per order, hold the fields
  of the order; each of the seven optional columns holds the string of its field, the
  empty string when the field is unset.
\<close>

theorem generate_excel_sheet:
  "generate_excel output_dir now fs [] tk =
     Inl (ValueError ''Cannot generate Excel: no orders provided'')
   \<and> (orders \<noteq> [] \<longrightarrow>
        (\<exists>path fs'. generate_excel output_dir now fs orders tk = Inr (path, fs')
           \<and> fs' = fs(path \<mapsto>
                \<lparr> columns = [''NUMERO_CONTA'', ''VALIDADE_PUSH'', ''VALIDADE_ORDEM'', ''ATIVO'', ''ESTRATEGIA'',
                   ''DIRECAO'', ''QUANTIDADE'', ''QUANTIDADE_APARENTE'', ''QUANTIDADE_MINIMA'',
                   ''TIPO_PRECO'', ''PRECO_LIMITE'', ''TIPO_DISPARO'', ''PRECO_DISPARO_CIMA'',
                   ''PRECO_LIMITE_CIMA'', ''PRECO_DISPARO_BAIXO'', ''PRECO_LIMITE_BAIXO''],
                  rows = map (\<lambda>x. [CStr (order_account_number x), CStr (push_validity x), CStr (order_validity x),
                      CStr (order_ticker x), CStr (order_strategy x), CStr (direction x),
                      CInt (quantity x), CStr (apparent_quantity x), CStr (minimum_quantity x),
                      CStr (price_type x), CFloat (limit_price x), CStr (trigger_type x),
                      CStr (upper_trigger_price x), CStr (upper_limit_price x),
                      CStr (lower_trigger_price x), CStr (lower_limit_price x)]) orders \<rparr>)))"
proof (intro conjI impI)
  show "generate_excel output_dir now fs [] tk =
     Inl (ValueError ''Cannot generate Excel: no orders provided'')"
    by (simp add: generate_excel_def)
next
  assume "orders \<noteq> []"
  then show "\<exists>path fs'. generate_excel output_dir now fs orders tk = Inr (path, fs')
           \<and> fs' = fs(path \<mapsto>
                \<lparr> columns = [''NUMERO_CONTA'', ''VALIDADE_PUSH'', ''VALIDADE_ORDEM'', ''ATIVO'', ''ESTRATEGIA'',
                   ''DIRECAO'', ''QUANTIDADE'', ''QUANTIDADE_APARENTE'', ''QUANTIDADE_MINIMA'',
                   ''TIPO_PRECO'', ''PRECO_LIMITE'', ''TIPO_DISPARO'', ''PRECO_DISPARO_CIMA'',
                   ''PRECO_LIMITE_CIMA'', ''PRECO_DISPARO_BAIXO'', ''PRECO_LIMITE_BAIXO''],
                  rows = map (\<lambda>x. [CStr (order_account_number x), CStr (push_validity x), CStr (order_validity x),
                      CStr (order_ticker x), CStr (order_strategy x), CStr (direction x),
                      CInt (quantity x), CStr (apparent_quantity x), CStr (minimum_quantity x),
                      CStr (price_type x), CFloat (limit_price x), CStr (trigger_type x),
                      CStr (upper_trigger_price x), CStr (upper_limit_price x),
                      CStr (lower_trigger_price x), CStr (lower_limit_price x)]) orders \<rparr>)"
    by (simp add: generate_excel_nonempty COLUMNS_def order_to_dict_def)
qed

text \<open>
  The theorem at one order built as \<^verbatim>\<open>generate_basket\<close> builds it: the seven optional
  cells are empty strings.
\<close>

theorem generate_excel_sheet_witness:
  "[ClientOrder ''1001'' ''PETR4'' 500 ''l'' 20 (Some ''Ana'') (Some 10000)] \<noteq> []
   \<and> (\<exists>path fs'. generate_excel ''output'' \<lparr> year = 2024, month = 3, day = 4, hour = 5, minute = 6, second = 7 \<rparr> Map.empty [ClientOrder ''1001'' ''PETR4'' 500 ''l'' 20 (Some ''Ana'') (Some 10000)] ''PETR4'' = Inr (path, fs')
         \<and> fs' = [path \<mapsto>
              \<lparr> columns = [''NUMERO_CONTA'', ''VALIDADE_PUSH'', ''VALIDADE_ORDEM'', ''ATIVO'', ''ESTRATEGIA'',
                   ''DIRECAO'', ''QUANTIDADE'', ''QUANTIDADE_APARENTE'', ''QUANTIDADE_MINIMA'',
                   ''TIPO_PRECO'', ''PRECO_LIMITE'', ''TIPO_DISPARO'', ''PRECO_DISPARO_CIMA'',
                   ''PRECO_LIMITE_CIMA'', ''PRECO_DISPARO_BAIXO'', ''PRECO_LIMITE_BAIXO''],
                rows = [[CStr ''1001'', CStr ''hoje'', CStr ''hoje'', CStr ''PETR4'', CStr ''position'',
                         CStr ''compra'', CInt 500, CStr '''', CStr '''', CStr ''l'', CFloat 20,
                         CStr '''', CStr '''', CStr '''', CStr '''', CStr '''']] \<rparr>])"
  using generate_excel_sheet [of "''output''" "\<lparr> year = 2024, month = 3, day = 4, hour = 5, minute = 6, second = 7 \<rparr>" Map.empty "''PETR4''" "[ClientOrder ''1001'' ''PETR4'' 500 ''l'' 20 (Some ''Ana'') (Some 10000)]"]
  by (simp add: ClientOrder_def)

lemma length_zero_padded: "length (zero_padded w n) = w"
  by (induction w n rule: zero_padded.induct) simp_all

lemma digit_inj: "digit n = digit m \<Longrightarrow> n mod 10 = m mod 10"
proof -
  assume a: "digit n = digit m"
  have d: "distinct ''0123456789''" by simp
  have "n mod 10 < length ''0123456789''" "m mod 10 < length ''0123456789''" by simp_all
  with a d show ?thesis unfolding digit_def by (simp only: nth_eq_iff_index_eq)
qed

lemma zero_padded_inj:
  "n < 10 ^ w \<Longrightarrow> m < 10 ^ w \<Longrightarrow> zero_padded w n = zero_padded w m \<Longrightarrow> n = m"
proof (induction w arbitrary: n m)
  case 0
  then show ?case by simp
next
  case (Suc w)
  from Suc.prems(3) have eq: "zero_padded w (n div 10) = zero_padded w (m div 10)"
    and d: "digit n = digit m"
    by simp_all
  have "n div 10 < 10 ^ w" "m div 10 < 10 ^ w"
    using Suc.prems(1,2) by (simp_all add: less_mult_imp_div_less mult.commute)
  then have "n div 10 = m div 10" using eq by (rule Suc.IH)
  moreover have "n mod 10 = m mod 10" using d by (rule digit_inj)
  ultimately show ?case by (metis div_mult_mod_eq)
qed

lemma strftime_inj:
  assumes "valid_datetime s" and "valid_datetime t" and "strftime s = strftime t"
  shows "s = t"
proof -
  from assms(3) have
    "zero_padded 4 (year s) = zero_padded 4 (year t)"
    "zero_padded 2 (month s) = zero_padded 2 (month t)"
    "zero_padded 2 (day s) = zero_padded 2 (day t)"
    "zero_padded 2 (hour s) = zero_padded 2 (hour t)"
    "zero_padded 2 (minute s) = zero_padded 2 (minute t)"
    "zero_padded 2 (second s) = zero_padded 2 (second t)"
    unfolding strftime_def by (simp_all add: length_zero_padded)
  moreover have "year s < 10 ^ 4" "year t < 10 ^ 4" "month s < 10 ^ 2" "month t < 10 ^ 2"
    "day s < 10 ^ 2" "day t < 10 ^ 2" "hour s < 10 ^ 2" "hour t < 10 ^ 2"
    "minute s < 10 ^ 2" "minute t < 10 ^ 2" "second s < 10 ^ 2" "second t < 10 ^ 2"
    using assms(1,2) by (simp_all add: valid_datetime_def)
  ultimately have "year s = year t" "month s = month t" "day s = day t"
    "hour s = hour t" "minute s = minute t" "second s = second t"
    by (blast intro: zero_padded_inj)+
  then show ?thesis by simp
qed

text \<open>
  Claim C8, as amended. For every non-empty order list and every ticker, the file that
  \<^verbatim>\<open>generate_excel\<close> writes is named \<^verbatim>\<open>basket_{ticker}_{YYYYMMDD}_{HHMMSS}.xlsx\<close>, with an
  underscore between the date and the time of the clock reading. Two generations for
  the same ticker at clock readings that differ (to the second) write two files with
  distinct names, and the first file is still there after the second is written.
\<close>

theorem generate_excel_filename:
  "(orders \<noteq> [] \<longrightarrow>
      (\<exists>fs'. generate_excel output_dir now fs orders tk =
          Inr ((output_dir,
                ''basket_'' @ tk @ ''_''
                @ zero_padded 4 (year now) @ zero_padded 2 (month now) @ zero_padded 2 (day now)
                @ ''_''
                @ zero_padded 2 (hour now) @ zero_padded 2 (minute now) @ zero_padded 2 (second now)
                @ ''.xlsx''), fs')))
   \<and> (orders \<noteq> [] \<longrightarrow> orders' \<noteq> [] \<longrightarrow> valid_datetime now \<longrightarrow> valid_datetime now' \<longrightarrow>
       now \<noteq> now' \<longrightarrow>
        (\<exists>p fs1 p' fs2.
            generate_excel output_dir now fs orders tk = Inr (p, fs1)
          \<and> generate_excel output_dir now' fs1 orders' tk = Inr (p', fs2)
          \<and> p \<noteq> p' \<and> fs2 p = fs1 p \<and> fs1 p \<noteq> None \<and> fs2 p' \<noteq> None))"
proof (intro conjI impI)
  assume "orders \<noteq> []"
  then show "\<exists>fs'. generate_excel output_dir now fs orders tk =
          Inr ((output_dir,
                ''basket_'' @ tk @ ''_''
                @ zero_padded 4 (year now) @ zero_padded 2 (month now) @ zero_padded 2 (day now)
                @ ''_''
                @ zero_padded 2 (hour now) @ zero_padded 2 (minute now) @ zero_padded 2 (second now)
                @ ''.xlsx''), fs')"
    by (simp add: generate_excel_nonempty strftime_def)
next
  assume ne: "orders \<noteq> []" and ne': "orders' \<noteq> []"
    and v: "valid_datetime now" and v': "valid_datetime now'" and d: "now \<noteq> now'"
  have "strftime now \<noteq> strftime now'" using strftime_inj [OF v v'] d by blast
  then have "''basket_'' @ tk @ ''_'' @ strftime now @ ''.xlsx''
               \<noteq> ''basket_'' @ tk @ ''_'' @ strftime now' @ ''.xlsx''"
    by simp
  then show "\<exists>p fs1 p' fs2.
            generate_excel output_dir now fs orders tk = Inr (p, fs1)
          \<and> generate_excel output_dir now' fs1 orders' tk = Inr (p', fs2)
          \<and> p \<noteq> p' \<and> fs2 p = fs1 p \<and> fs1 p \<noteq> None \<and> fs2 p' \<noteq> None"
    by (simp add: generate_excel_nonempty [OF ne] generate_excel_nonempty [OF ne'])
qed

text \<open>
  The theorem at the ticker \<^verbatim>\<open>PETR4\<close> and two clock readings one second apart.
\<close>

theorem generate_excel_filename_witness:
  "[ClientOrder ''1001'' ''PETR4'' 500 ''l'' 20 (Some ''Ana'') (Some 10000)] \<noteq> [] \<and> valid_datetime \<lparr> year = 2024, month = 3, day = 4, hour = 5, minute = 6, second = 7 \<rparr> \<and> valid_datetime \<lparr> year = 2024, month = 3, day = 4, hour = 5, minute = 6, second = 8 \<rparr>
   \<and> \<lparr> year = 2024, month = 3, day = 4, hour = 5, minute = 6, second = 7 \<rparr> \<noteq> \<lparr> year = 2024, month = 3, day = 4, hour = 5, minute = 6, second = 8 \<rparr>
   \<and> (\<exists>fs'. generate_excel ''output'' \<lparr> year = 2024, month = 3, day = 4, hour = 5, minute = 6, second = 7 \<rparr> Map.empty [ClientOrder ''1001'' ''PETR4'' 500 ''l'' 20 (Some ''Ana'') (Some 10000)] ''PETR4'' =
          Inr ((''output'', ''basket_PETR4_20240304_050607.xlsx''), fs'))
   \<and> (\<exists>p fs1 p' fs2.
            generate_excel ''output'' \<lparr> year = 2024, month = 3, day = 4, hour = 5, minute = 6, second = 7 \<rparr> Map.empty [ClientOrder ''1001'' ''PETR4'' 500 ''l'' 20 (Some ''Ana'') (Some 10000)] ''PETR4'' = Inr (p, fs1)
          \<and> generate_excel ''output'' \<lparr> year = 2024, month = 3, day = 4, hour = 5, minute = 6, second = 8 \<rparr> fs1 [ClientOrder ''1001'' ''PETR4'' 500 ''l'' 20 (Some ''Ana'') (Some 10000)] ''PETR4'' = Inr (p', fs2)
          \<and> p \<noteq> p' \<and> fs2 p = fs1 p \<and> fs1 p \<noteq> None \<and> fs2 p' \<noteq> None)"
proof -
  have z: "zero_padded 4 2024 = ''2024''" "zero_padded 2 3 = ''03''" "zero_padded 2 4 = ''04''"
    "zero_padded 2 5 = ''05''" "zero_padded 2 6 = ''06''" "zero_padded 2 7 = ''07''"
    by code_simp+
  have v: "valid_datetime \<lparr> year = 2024, month = 3, day = 4, hour = 5, minute = 6, second = 7 \<rparr>" "valid_datetime \<lparr> year = 2024, month = 3, day = 4, hour = 5, minute = 6, second = 8 \<rparr>"
    "\<lparr> year = 2024, month = 3, day = 4, hour = 5, minute = 6, second = 7 \<rparr> \<noteq> \<lparr> year = 2024, month = 3, day = 4, hour = 5, minute = 6, second = 8 \<rparr>"
    by (simp_all add: valid_datetime_def)
  show ?thesis
    using v generate_excel_filename [of "[ClientOrder ''1001'' ''PETR4'' 500 ''l'' 20 (Some ''Ana'') (Some 10000)]" "''output''" "\<lparr> year = 2024, month = 3, day = 4, hour = 5, minute = 6, second = 7 \<rparr>" Map.empty "''PETR4''"
        "[ClientOrder ''1001'' ''PETR4'' 500 ''l'' 20 (Some ''Ana'') (Some 10000)]" "\<lparr> year = 2024, month = 3, day = 4, hour = 5, minute = 6, second = 8 \<rparr>"]
    by (simp add: z)
qed

text \<open>
  Claim C8 as stated fails: at 2024-03-04 05:06:07 the file for \<^verbatim>\<open>PETR4\<close> is named
  \<^verbatim>\<open>basket_PETR4_20240304_050607.xlsx\<close>, not \<^verbatim>\<open>basket_PETR4_20240304050607.xlsx\<close>.
\<close>

theorem generate_excel_filename_pattern:
  "generate_excel ''output'' \<lparr> year = 2024, month = 3, day = 4, hour = 5, minute = 6, second = 7 \<rparr> Map.empty [ClientOrder ''1001'' ''PETR4'' 500 ''l'' 20 (Some ''Ana'') (Some 10000)] ''PETR4''
     = Inr ((''output'', ''basket_PETR4_20240304_050607.xlsx''),
            [(''output'', ''basket_PETR4_20240304_050607.xlsx'') \<mapsto>
               \<lparr> columns = COLUMNS, rows = [map snd (order_to_dict (ClientOrder ''1001'' ''PETR4'' 500 ''l'' 20 (Some ''Ana'') (Some 10000)))] \<rparr>])
   \<and> spec_timestamp \<lparr> year = 2024, month = 3, day = 4, hour = 5, minute = 6, second = 7 \<rparr> = ''20240304050607''
   \<and> ''basket_PETR4_20240304_050607.xlsx''
       \<noteq> ''basket_'' @ ''PETR4'' @ ''_'' @ spec_timestamp \<lparr> year = 2024, month = 3, day = 4, hour = 5, minute = 6, second = 7 \<rparr> @ ''.xlsx''"
proof -
  have z: "strftime \<lparr> year = 2024, month = 3, day = 4, hour = 5, minute = 6, second = 7 \<rparr> = ''20240304_050607''" by code_simp
  have y: "spec_timestamp \<lparr> year = 2024, month = 3, day = 4, hour = 5, minute = 6, second = 7 \<rparr> = ''20240304050607''" by code_simp
  show ?thesis by (simp add: generate_excel_nonempty z y)
qed

end
